theory Spec2Isabelle
  imports Main "HOL-Library.Word"
begin

section \<open>The Buzzex client (buzzex.js)\<close>

text \<open>
  A shallow embedding of \<^verbatim>\<open>src/buzzex.js\<close>: the signer \<^verbatim>\<open>getMessageSignature\<close>, the
  transport wrapper \<^verbatim>\<open>rawRequest\<close>, the token provider \<^verbatim>\<open>getToken\<close> and the three
  methods \<^verbatim>\<open>api\<close>, \<^verbatim>\<open>publicMethod\<close> and \<^verbatim>\<open>privateMethod\<close> of \<^verbatim>\<open>BuzzexClient\<close>.

  What the program does beyond returning a value is made explicit:
  \<^item> a \<^verbatim>\<open>throw\<close> that leaves a synchronous function is the \<open>Inl\<close> branch of a sum;
  \<^item> a promise is the way it settles: resolved with a value, rejected with an error, or
    never settled;
  \<^item> every call that leaves the process (the \<^verbatim>\<open>request\<close> call of \<^verbatim>\<open>getToken\<close>, the
    \<^verbatim>\<open>got\<close> call of \<^verbatim>\<open>rawRequest\<close>) and every call of the caller's callback is an
    event of a trace, in the order in which the program performs them;
  \<^item> the network and the clock are inputs: an environment answers each request and gives
    the reading of \<^verbatim>\<open>new Date()\<close>;
  \<^item> the libraries \<^verbatim>\<open>qs\<close> and \<^verbatim>\<open>crypto\<close>, \<^verbatim>\<open>JSON.parse\<close> and the printing of numbers
    are not code of this program: they are the fields of a record the functions take.
  Output on the console (\<^verbatim>\<open>console.log\<close>) is not part of the trace.
\<close>

subsection \<open>Values\<close>

text \<open>
  JavaScript values as far as the program meets them: parameter values, parsed JSON and
  the token body. Numbers are the integers. A string is a list of 8-bit characters, so
  the \<^verbatim>\<open>'binary'\<close> (Latin-1) encoding of Node is one byte for each character.
  An object is the list of its own properties in insertion order.
\<close>

datatype jsval =
    JUndefined
  | JNull
  | JBool bool
  | JNum int
  | JStr string
  | JArr "jsval list"
  | JObj "(string \<times> jsval) list"

type_synonym obj = "(string \<times> jsval) list"

type_synonym byte = "8 word"

text \<open>
  What this program raises or passes on: \<^verbatim>\<open>new Error(msg)\<close>, the \<^verbatim>\<open>TypeError\<close> of a
  property read on \<^verbatim>\<open>undefined\<close>/\<^verbatim>\<open>null\<close> or of a call of something that is no
  function, the \<^verbatim>\<open>SyntaxError\<close> of \<^verbatim>\<open>JSON.parse\<close>, and the error \<^verbatim>\<open>got\<close> rejects with.
\<close>

datatype error =
    Error string
  | TypeError
  | SyntaxError
  | TransportError string

definition InvalidMethod :: "string \<Rightarrow> error" where
  "InvalidMethod method = Error (method @ '' is not a valid API method.'')"

definition UnknownRemoteError :: error where
  "UnknownRemoteError = Error ''Buzzex API returned an unknown error''"

text \<open>The libraries and the runtime, as parameters.\<close>

record platform =
  qs_stringify :: "obj \<Rightarrow> string"
  json_parse :: "string \<Rightarrow> jsval option"
  num_to_string :: "int \<Rightarrow> string"
  utf8_encode :: "string \<Rightarrow> byte list"
  sha256 :: "byte list \<Rightarrow> byte list"
  hmac_sha512 :: "byte list \<Rightarrow> byte list \<Rightarrow> byte list"
  base64_decode :: "string \<Rightarrow> byte list"
  base64_encode :: "byte list \<Rightarrow> string"

text \<open>\<^verbatim>\<open>Array.prototype.join\<close> with the separator \<^verbatim>\<open>,\<close>.\<close>

fun join_comma :: "string list \<Rightarrow> string" where
  "join_comma [] = []"
| "join_comma [s] = s"
| "join_comma (s # t # ss) = s @ '','' @ join_comma (t # ss)"

text \<open>
  \<^verbatim>\<open>ToString\<close>, which \<^verbatim>\<open>+\<close> applies to the other operand when one operand is a string.
  An array prints its elements joined by commas, \<^verbatim>\<open>undefined\<close> and \<^verbatim>\<open>null\<close> elements
  as the empty string.
\<close>

fun to_string :: "platform \<Rightarrow> jsval \<Rightarrow> string" where
  "to_string P JUndefined = ''undefined''"
| "to_string P JNull = ''null''"
| "to_string P (JBool b) = (if b then ''true'' else ''false'')"
| "to_string P (JNum n) = num_to_string P n"
| "to_string P (JStr s) = s"
| "to_string P (JArr xs) =
     join_comma (map (\<lambda>x. if x = JUndefined \<or> x = JNull then [] else to_string P x) xs)"
| "to_string P (JObj kvs) = ''[object Object]''"

text \<open>\<^verbatim>\<open>ToBoolean\<close>: what \<^verbatim>\<open>!v\<close> and \<^verbatim>\<open>a && b\<close> test.\<close>

fun truthy :: "jsval \<Rightarrow> bool" where
  "truthy JUndefined = False"
| "truthy JNull = False"
| "truthy (JBool b) = b"
| "truthy (JNum n) = (n \<noteq> 0)"
| "truthy (JStr s) = (s \<noteq> [])"
| "truthy (JArr xs) = True"
| "truthy (JObj kvs) = True"

text \<open>Reading and writing an own property of an object: \<^verbatim>\<open>o.k\<close> and \<^verbatim>\<open>o.k = v\<close>.\<close>

definition obj_get :: "obj \<Rightarrow> string \<Rightarrow> jsval" where
  "obj_get ob k = (case map_of ob k of None \<Rightarrow> JUndefined | Some v \<Rightarrow> v)"

fun obj_set :: "('k \<times> 'v) list \<Rightarrow> 'k \<Rightarrow> 'v \<Rightarrow> ('k \<times> 'v) list" where
  "obj_set [] k v = [(k, v)]"
| "obj_set ((k', v') # kvs) k v =
     (if k' = k then (k, v) # kvs else (k', v') # obj_set kvs k v)"

text \<open>
  \<^verbatim>\<open>v.k\<close> on any value, for the property names the program reads (\<^verbatim>\<open>error\<close>,
  \<^verbatim>\<open>length\<close>, \<^verbatim>\<open>access_token\<close>): a \<^verbatim>\<open>TypeError\<close> on \<^verbatim>\<open>undefined\<close> and \<^verbatim>\<open>null\<close>,
  the length of a string or an array, \<^verbatim>\<open>undefined\<close> for a property that is not there.
\<close>

fun get_prop :: "jsval \<Rightarrow> string \<Rightarrow> error + jsval" where
  "get_prop JUndefined k = Inl TypeError"
| "get_prop JNull k = Inl TypeError"
| "get_prop (JBool b) k = Inr JUndefined"
| "get_prop (JNum n) k = Inr JUndefined"
| "get_prop (JStr s) k = Inr (if k = ''length'' then JNum (int (length s)) else JUndefined)"
| "get_prop (JArr xs) k = Inr (if k = ''length'' then JNum (int (length xs)) else JUndefined)"
| "get_prop (JObj kvs) k = Inr (obj_get kvs k)"

subsection \<open>Signer\<close>

text \<open>
  \<^verbatim>\<open>digest('binary')\<close> returns the digest as a string with one character for each
  byte; \<^verbatim>\<open>update(s, 'binary')\<close> reads a string as the bytes of its characters.
\<close>

definition binary_decode :: "byte list \<Rightarrow> string" where
  "binary_decode bs = map (\<lambda>b. char_of (unat b)) bs"

definition binary_encode :: "string \<Rightarrow> byte list" where
  "binary_encode s = map (\<lambda>c. word_of_nat (of_char c)) s"

text \<open>
  Lines 20 to 29. \<^verbatim>\<open>nonce + message\<close> is a string concatenation, since \<^verbatim>\<open>message\<close> is
  a string; \<^verbatim>\<open>hash.update\<close> without an encoding reads its string as UTF-8.
\<close>

definition getMessageSignature :: "platform \<Rightarrow> string \<Rightarrow> obj \<Rightarrow> string \<Rightarrow> jsval \<Rightarrow> string" where
  "getMessageSignature P path request secret nonce =
     (let message = qs_stringify P request;
          secret_buffer = base64_decode P secret;
          hash_digest = binary_decode (sha256 P (utf8_encode P (to_string P nonce @ message)));
          hmac_digest = base64_encode P
            (hmac_sha512 P secret_buffer (binary_encode (path @ hash_digest)))
      in hmac_digest)"

text \<open>
  The signature as section 4.1 of the specification words it: the base64 text of
  HMAC-SHA512, keyed with the decoded secret, of the path followed by the raw bytes of
  SHA-256 of the nonce as a string followed by the serialised parameters.
\<close>

definition spec_sign :: "platform \<Rightarrow> string \<Rightarrow> obj \<Rightarrow> string \<Rightarrow> int \<Rightarrow> string" where
  "spec_sign P path params secret nonce =
     base64_encode P
       (hmac_sha512 P (base64_decode P secret)
          (binary_encode path @
           sha256 P (utf8_encode P (num_to_string P nonce @ qs_stringify P params))))"

subsection \<open>Promises, events and the environment\<close>

datatype settle =
    Resolved jsval
  | Rejected error
  | Pending

record http_options =
  opt_headers :: "(string \<times> string) list"
  opt_timeout :: int
  opt_method :: string
  opt_body :: string

datatype event =
    TokenRequest string string "(string \<times> string) list"
  | GotRequest string http_options
  | CallbackCall nat "error option" "jsval option"

text \<open>
  \<open>TokenRequest url method json\<close> is the \<^verbatim>\<open>request\<close> call of \<^verbatim>\<open>getToken\<close>,
  \<open>GotRequest url options\<close> the \<^verbatim>\<open>got\<close> call of \<^verbatim>\<open>rawRequest\<close>, and
  \<open>CallbackCall f err result\<close> a call of the callback \<open>f\<close>, \<open>None\<close> standing for the
  \<^verbatim>\<open>null\<close> the program passes in the other position.
\<close>

datatype token_outcome =
    TokenFailed string
  | TokenBody jsval

datatype got_outcome =
    GotFailed string
  | GotBody string

record env =
  clock_ms :: int
  token_reply :: "string \<Rightarrow> string \<Rightarrow> (string \<times> string) list \<Rightarrow> token_outcome"
  got_reply :: "string \<Rightarrow> http_options \<Rightarrow> got_outcome"

text \<open>
  \<open>clock_ms\<close> is the number \<^verbatim>\<open>new Date()\<close> converts to (milliseconds since the epoch);
  \<open>token_reply\<close> is what \<^verbatim>\<open>request\<close> hands to its callback (an error, or the body);
  \<open>got_reply\<close> is how the promise of \<^verbatim>\<open>got\<close> settles (rejected, or a response body).
\<close>

subsection \<open>Transport\<close>

text \<open>
  Lines 52 to 54: \<^verbatim>\<open>response.error.filter((e) => e.startsWith('E')).map((e) => e.substr(1))\<close>.
  Only an array has \<^verbatim>\<open>filter\<close>, and only a string has \<^verbatim>\<open>startsWith\<close>.
\<close>

fun is_str :: "jsval \<Rightarrow> bool" where
  "is_str (JStr s) = True"
| "is_str v = False"

fun str_of :: "jsval \<Rightarrow> string" where
  "str_of (JStr s) = s"
| "str_of v = []"

definition startsWith_E :: "string \<Rightarrow> bool" where
  "startsWith_E e = (take 1 e = ''E'')"

definition hard_errors :: "jsval \<Rightarrow> error + string list" where
  "hard_errors err =
     (case err of
        JArr es \<Rightarrow>
          if list_all is_str es
          then Inr (map (drop 1) (filter startsWith_E (map str_of es)))
          else Inl TypeError
      | _ \<Rightarrow> Inl TypeError)"

text \<open>Lines 51 to 63: what \<^verbatim>\<open>rawRequest\<close> does with the parsed response.\<close>

definition check_response :: "jsval \<Rightarrow> error + jsval" where
  "check_response response =
     (case get_prop response ''error'' of
        Inl e \<Rightarrow> Inl e
      | Inr err \<Rightarrow>
          if \<not> truthy err then Inr response
          else (case get_prop err ''length'' of
                  Inl e \<Rightarrow> Inl e
                | Inr len \<Rightarrow>
                    if \<not> truthy len then Inr response
                    else (case hard_errors err of
                            Inl e \<Rightarrow> Inl e
                          | Inr error \<Rightarrow>
                              if error = [] then Inl UnknownRemoteError
                              else Inr response)))"

definition settle_of :: "error + jsval \<Rightarrow> settle" where
  "settle_of r = (case r of Inl e \<Rightarrow> Rejected e | Inr v \<Rightarrow> Resolved v)"

text \<open>Lines 32 to 64. The result is the trace and the way the returned promise settles.\<close>

definition rawRequest ::
  "platform \<Rightarrow> env \<Rightarrow> string \<Rightarrow> (string \<times> string) list \<Rightarrow> obj \<Rightarrow> int \<Rightarrow> string
     \<Rightarrow> event list \<times> settle" where
  "rawRequest P E url headers data timeout method =
     (let headers = obj_set headers ''User-Agent'' ''Buzzex Javascript API Client'';
          options = \<lparr>opt_headers = headers, opt_timeout = timeout,
                     opt_method = method, opt_body = qs_stringify P data\<rparr>;
          url = (if method = ''POST'' then url @ ''?'' @ qs_stringify P data else url)
      in ([GotRequest url options],
          case got_reply E url options of
            GotFailed e \<Rightarrow> Rejected (TransportError e)
          | GotBody body \<Rightarrow>
              (case json_parse P body of
                 None \<Rightarrow> Rejected SyntaxError
               | Some response \<Rightarrow> settle_of (check_response response))))"

subsection \<open>Token provider\<close>

text \<open>
  Lines 66 to 90. The promise is built from \<^verbatim>\<open>resolve\<close> alone; the callback of
  \<^verbatim>\<open>request\<close> resolves it with the body when there is no error and only logs otherwise.
\<close>

definition token_json :: "string \<Rightarrow> string \<Rightarrow> (string \<times> string) list" where
  "token_json key secret =
     [(''grant_type'', ''client_credentials''), (''client_id'', key), (''client_secret'', secret)]"

definition getToken :: "env \<Rightarrow> string \<Rightarrow> string \<Rightarrow> event list \<times> settle" where
  "getToken E key secret =
     (let url = ''https://api.buzzex.io/api/token'';
          json = token_json key secret
      in ([TokenRequest url ''POST'' json],
          case token_reply E url ''POST'' json of
            TokenBody body \<Rightarrow> Resolved body
          | TokenFailed error \<Rightarrow> Pending))"

subsection \<open>Client\<close>

record config =
  cfg_key :: string
  cfg_secret :: string
  cfg_url :: string
  cfg_version :: int
  cfg_timeout :: int
  cfg_otp :: "string option"

text \<open>Lines 13 to 17 and 107: the configuration of \<^verbatim>\<open>new BuzzexClient(key, secret)\<close>.\<close>

definition defaults :: "string \<Rightarrow> string \<Rightarrow> config" where
  "defaults key secret =
     \<lparr>cfg_key = key, cfg_secret = secret, cfg_url = ''https://api.buzzex.io'',
      cfg_version = 0, cfg_timeout = 5000, cfg_otp = None\<rparr>"

definition methods_public :: "string list" where
  "methods_public = [''info'', ''ticker'', ''depth'', ''trades'']"

definition methods_private :: "string list" where
  "methods_private = [''getinfo'', ''trade'', ''active-orders'', ''order-info'', ''cancel-order'']"

text \<open>
  What a caller passes in the position of \<^verbatim>\<open>params\<close>: nothing (\<^verbatim>\<open>undefined\<close>, or a
  falsy value, which \<^verbatim>\<open>params || {}\<close> replaces alike), a function, or an object.
  A callback is \<open>Some f\<close> when it is the function \<open>f\<close> and \<open>None\<close> when
  \<^verbatim>\<open>typeof callback === 'function'\<close> is false.
\<close>

datatype arg =
    NoArg
  | FunArg nat
  | ObjArg obj

datatype ret =
    RetUndefined
  | RetPromise settle

text \<open>
  What a call leaves behind: the value it returns, the trace, the parameter object as
  the call leaves it, and the signature when one was computed.
\<close>

record call_result =
  returned :: ret
  events :: "event list"
  params_after :: obj
  signature :: "string option"

text \<open>\<^verbatim>\<open>params = params || {}\<close>, then \<^verbatim>\<open>if(typeof params === 'function') ...\<close>.\<close>

definition params_of :: "arg \<Rightarrow> obj" where
  "params_of a = (case a of ObjArg ob \<Rightarrow> ob | _ \<Rightarrow> [])"

definition callback_of :: "arg \<Rightarrow> nat option \<Rightarrow> nat option" where
  "callback_of a callback = (case a of FunArg f \<Rightarrow> Some f | _ \<Rightarrow> callback)"

text \<open>
  \<^verbatim>\<open>response.then((result) => callback(null, result)).catch((error) => callback(error, null))\<close>
  under \<^verbatim>\<open>typeof callback === 'function'\<close>. The callback is taken to return
  normally, so it is called once when the promise settles and never when it does not.
\<close>

definition notify :: "nat option \<Rightarrow> settle \<Rightarrow> event list" where
  "notify callback response =
     (case callback of
        None \<Rightarrow> []
      | Some f \<Rightarrow>
          (case response of
             Resolved result \<Rightarrow> [CallbackCall f None (Some result)]
           | Rejected error \<Rightarrow> [CallbackCall f (Some error) None]
           | Pending \<Rightarrow> []))"

text \<open>Lines 143 to 167.\<close>

definition publicMethod ::
  "platform \<Rightarrow> config \<Rightarrow> env \<Rightarrow> string \<Rightarrow> arg \<Rightarrow> nat option \<Rightarrow> call_result" where
  "publicMethod P C E method a callback =
     (let params = params_of a;
          callback = callback_of a callback;
          path = ''/api/v1/'' @ method;
          url = cfg_url C @ path @ ''/'' @ to_string P (obj_get params ''param'');
          (evs, response) = rawRequest P E url [] params (cfg_timeout C) ''GET''
      in \<lparr>returned = RetPromise response,
          events = evs @ notify callback response,
          params_after = params,
          signature = None\<rparr>)"

text \<open>
  Lines 185 to 193, 201 to 203 and 205 to 207: the three updates of \<^verbatim>\<open>params\<close>.
\<close>

definition normalize_param :: "platform \<Rightarrow> string \<Rightarrow> obj \<Rightarrow> obj" where
  "normalize_param P method params =
     (if obj_get params ''param'' = JUndefined then obj_set params ''param'' (JStr [])
      else if method \<noteq> ''trade''
      then obj_set params ''param'' (JStr (''/'' @ to_string P (obj_get params ''param'')))
      else params)"

definition assign_nonce :: "env \<Rightarrow> obj \<Rightarrow> obj" where
  "assign_nonce E params =
     (if \<not> truthy (obj_get params ''nonce'')
      then obj_set params ''nonce'' (JNum (clock_ms E * 1000))
      else params)"

definition assign_otp :: "config \<Rightarrow> obj \<Rightarrow> obj" where
  "assign_otp C params =
     (case cfg_otp C of None \<Rightarrow> params | Some otp \<Rightarrow> obj_set params ''otp'' (JStr otp))"

text \<open>
  Lines 218 to 237: the function given to \<^verbatim>\<open>token.then\<close>, run with the value the token
  promise resolved with. Reading \<^verbatim>\<open>value.access_token\<close> raises before any request when
  the value is \<^verbatim>\<open>undefined\<close> or \<^verbatim>\<open>null\<close>.
\<close>

definition on_token ::
  "platform \<Rightarrow> config \<Rightarrow> env \<Rightarrow> string \<Rightarrow> string \<Rightarrow> obj \<Rightarrow> nat option \<Rightarrow> jsval
     \<Rightarrow> event list" where
  "on_token P C E method url params callback value =
     (case get_prop value ''access_token'' of
        Inl e \<Rightarrow> []
      | Inr access_token \<Rightarrow>
          (let headers = [(''Authorization'', ''Bearer '' @ to_string P access_token)];
               header_method = (if method = ''trade'' then ''POST'' else ''GET'');
               (evs, response) = rawRequest P E url headers params (cfg_timeout C) header_method
           in evs @ notify callback response))"

text \<open>Lines 176 to 238. The function has no \<^verbatim>\<open>return\<close> statement of its own.\<close>

definition privateMethod ::
  "platform \<Rightarrow> config \<Rightarrow> env \<Rightarrow> string \<Rightarrow> arg \<Rightarrow> nat option \<Rightarrow> call_result" where
  "privateMethod P C E method a callback =
     (let params = params_of a;
          callback = callback_of a callback;
          params = normalize_param P method params;
          path = ''/api/v1/trading/'' @ method;
          url = cfg_url C @ path @ to_string P (obj_get params ''param'');
          params = assign_nonce E params;
          params = assign_otp C params;
          signature = getMessageSignature P path params (cfg_secret C) (obj_get params ''nonce'');
          (tevs, token) = getToken E (cfg_key C) (cfg_secret C)
      in \<lparr>returned = RetUndefined,
          events = tevs @ (case token of
                             Resolved value \<Rightarrow> on_token P C E method url params callback value
                           | _ \<Rightarrow> []),
          params_after = params,
          signature = Some signature\<rparr>)"

text \<open>Lines 117 to 134.\<close>

definition api ::
  "platform \<Rightarrow> config \<Rightarrow> env \<Rightarrow> string \<Rightarrow> arg \<Rightarrow> nat option \<Rightarrow> error + call_result" where
  "api P C E method a callback =
     (let callback = callback_of a callback;
          params = (case a of FunArg f \<Rightarrow> ObjArg [] | _ \<Rightarrow> a)
      in if method \<in> set methods_public then Inr (publicMethod P C E method params callback)
         else if method \<in> set methods_private then Inr (privateMethod P C E method params callback)
         else Inl (InvalidMethod method))"

subsection \<open>Reading a trace\<close>

fun got_requests :: "event list \<Rightarrow> (string \<times> http_options) list" where
  "got_requests [] = []"
| "got_requests (GotRequest url options # evs) = (url, options) # got_requests evs"
| "got_requests (ev # evs) = got_requests evs"

fun token_fetches :: "event list \<Rightarrow> nat" where
  "token_fetches [] = 0"
| "token_fetches (TokenRequest url method json # evs) = Suc (token_fetches evs)"
| "token_fetches (ev # evs) = token_fetches evs"

subsection \<open>A sample platform, configuration and network\<close>

text \<open>
  Small computable stand-ins for the libraries, a client built with the default options,
  and a network that answers every token request with a token and every other request
  with the body \<open>ok\<close>. They serve to run the definitions on concrete calls.
\<close>

fun dec_nat :: "nat \<Rightarrow> string" where
  "dec_nat n =
     (if n < 10 then [''0123456789'' ! n]
      else dec_nat (n div 10) @ [''0123456789'' ! (n mod 10)])"

declare dec_nat.simps [simp del]

definition sample_num :: "int \<Rightarrow> string" where
  "sample_num n = (if n < 0 then ''-'' @ dec_nat (nat (- n)) else dec_nat (nat n))"

fun sample_show :: "jsval \<Rightarrow> string" where
  "sample_show (JStr s) = s"
| "sample_show (JNum n) = sample_num n"
| "sample_show v = []"

fun sample_qs :: "obj \<Rightarrow> string" where
  "sample_qs [] = []"
| "sample_qs [(k, v)] = k @ ''='' @ sample_show v"
| "sample_qs ((k, v) # kv # kvs) = k @ ''='' @ sample_show v @ ''&'' @ sample_qs (kv # kvs)"

definition sample_json :: "string \<Rightarrow> jsval option" where
  "sample_json body =
     (if body = ''ok'' then Some (JObj [(''error'', JArr [])])
      else if body = ''hard'' then Some (JObj [(''error'', JArr [JStr ''EGeneral:Invalid''])])
      else if body = ''soft'' then Some (JObj [(''error'', JArr [JStr ''Warning:Foo''])])
      else None)"

definition sample_platform :: platform where
  "sample_platform =
     \<lparr>qs_stringify = sample_qs, json_parse = sample_json, num_to_string = sample_num,
      utf8_encode = binary_encode, sha256 = rev, hmac_sha512 = (\<lambda>key msg. key @ msg),
      base64_decode = binary_encode, base64_encode = binary_decode\<rparr>"

definition sample_config :: config where
  "sample_config = defaults ''key'' ''c2VjcmV0''"

definition sample_env :: env where
  "sample_env =
     \<lparr>clock_ms = 1700000000000,
      token_reply = (\<lambda>url method json. TokenBody (JObj [(''access_token'', JStr ''tok'')])),
      got_reply = (\<lambda>url options. GotBody ''ok'')\<rparr>"

section \<open>Properties\<close>

subsection \<open>Helper lemmas\<close>

lemma byte_roundtrip: "word_of_nat (of_char (char_of (unat b))) = (b :: byte)"
proof -
  have "unat b < 256"
    using unsigned_less [of b, where ?'a = nat] by simp
  then show ?thesis by simp
qed

lemma binary_roundtrip: "binary_encode (binary_decode bs) = bs"
  by (induction bs)
    (simp_all add: binary_encode_def binary_decode_def byte_roundtrip del: of_char_of)

lemma binary_encode_append: "binary_encode (s @ t) = binary_encode s @ binary_encode t"
  by (simp add: binary_encode_def)

lemma obj_get_Nil: "obj_get [] k = JUndefined"
  by (simp add: obj_get_def)

lemma obj_get_Cons: "obj_get ((k', v) # ob) k = (if k = k' then v else obj_get ob k)"
  by (simp add: obj_get_def)

lemma obj_get_obj_set:
  "obj_get (obj_set ob k v) k' = (if k' = k then v else obj_get ob k')"
  by (induction ob) (auto simp: obj_get_def)

lemma keys_obj_set: "fst ` set (obj_set ob k v) = insert k (fst ` set ob)"
  by (induction ob) force+

lemma token_fetches_append: "token_fetches (xs @ ys) = token_fetches xs + token_fetches ys"
  by (induction xs rule: token_fetches.induct) simp_all

lemma got_requests_append: "got_requests (xs @ ys) = got_requests xs @ got_requests ys"
  by (induction xs rule: got_requests.induct) simp_all

lemma token_fetches_notify: "token_fetches (notify callback response) = 0"
  by (simp add: notify_def split: option.split settle.split)

lemma got_requests_notify: "got_requests (notify callback response) = []"
  by (simp add: notify_def split: option.split settle.split)

lemma fst_rawRequest:
  "fst (rawRequest P E url headers data timeout method) =
     [GotRequest (if method = ''POST'' then url @ ''?'' @ qs_stringify P data else url)
        \<lparr>opt_headers = obj_set headers ''User-Agent'' ''Buzzex Javascript API Client'',
         opt_timeout = timeout, opt_method = method, opt_body = qs_stringify P data\<rparr>]"
  by (simp add: rawRequest_def Let_def)

lemma events_publicMethod:
  "events (publicMethod P C E method a callback) =
     fst (rawRequest P E (cfg_url C @ ''/api/v1/'' @ method @ ''/'' @
            to_string P (obj_get (params_of a) ''param'')) [] (params_of a) (cfg_timeout C) ''GET'')
     @ notify (callback_of a callback)
         (snd (rawRequest P E (cfg_url C @ ''/api/v1/'' @ method @ ''/'' @
            to_string P (obj_get (params_of a) ''param'')) [] (params_of a) (cfg_timeout C) ''GET''))"
  by (simp add: publicMethod_def Let_def split: prod.split)

lemma params_after_privateMethod:
  "params_after (privateMethod P C E method a callback) =
     assign_otp C (assign_nonce E (normalize_param P method (params_of a)))"
  by (simp add: privateMethod_def Let_def split: prod.split)

lemma obj_get_assign_otp_nonce [simp]: "obj_get (assign_otp C ps) ''nonce'' = obj_get ps ''nonce''"
  by (simp add: assign_otp_def obj_get_obj_set split: option.split)

lemma obj_get_assign_otp_param [simp]: "obj_get (assign_otp C ps) ''param'' = obj_get ps ''param''"
  by (simp add: assign_otp_def obj_get_obj_set split: option.split)

lemma obj_get_assign_nonce_param [simp]: "obj_get (assign_nonce E ps) ''param'' = obj_get ps ''param''"
  by (simp add: assign_nonce_def obj_get_obj_set)

lemma obj_get_normalize_param_nonce [simp]:
  "obj_get (normalize_param P method ps) ''nonce'' = obj_get ps ''nonce''"
  by (simp add: normalize_param_def obj_get_obj_set)

lemma events_privateMethod:
  "events (privateMethod P C E method a callback) =
     TokenRequest ''https://api.buzzex.io/api/token'' ''POST'' (token_json (cfg_key C) (cfg_secret C)) #
     (case token_reply E ''https://api.buzzex.io/api/token'' ''POST'' (token_json (cfg_key C) (cfg_secret C)) of
        TokenFailed error \<Rightarrow> []
      | TokenBody value \<Rightarrow>
          on_token P C E method
            (cfg_url C @ ''/api/v1/trading/'' @ method @
               to_string P (obj_get (normalize_param P method (params_of a)) ''param''))
            (assign_otp C (assign_nonce E (normalize_param P method (params_of a))))
            (callback_of a callback) value)"
  by (simp add: privateMethod_def getToken_def Let_def split: prod.split token_outcome.split)

lemma on_token_events:
  "on_token P C E method url params callback value =
     (case get_prop value ''access_token'' of
        Inl e \<Rightarrow> []
      | Inr access_token \<Rightarrow>
          fst (rawRequest P E url [(''Authorization'', ''Bearer '' @ to_string P access_token)]
                 params (cfg_timeout C) (if method = ''trade'' then ''POST'' else ''GET''))
          @ notify callback
              (snd (rawRequest P E url [(''Authorization'', ''Bearer '' @ to_string P access_token)]
                 params (cfg_timeout C) (if method = ''trade'' then ''POST'' else ''GET''))))"
  by (simp add: on_token_def Let_def split: prod.split sum.split)

lemma token_fetches_on_token: "token_fetches (on_token P C E method url params callback value) = 0"
  by (simp add: on_token_events token_fetches_append token_fetches_notify fst_rawRequest
      split: sum.split)

lemma got_requests_privateMethod:
  assumes "token_reply E ''https://api.buzzex.io/api/token'' ''POST''
             (token_json (cfg_key C) (cfg_secret C)) = TokenBody value"
    and "get_prop value ''access_token'' = Inr access_token"
  shows "got_requests (events (privateMethod P C E method a callback)) =
     [(cfg_url C @ ''/api/v1/trading/'' @ method @
         to_string P (obj_get (params_after (privateMethod P C E method a callback)) ''param'') @
         (if method = ''trade''
          then ''?'' @ qs_stringify P (params_after (privateMethod P C E method a callback))
          else []),
       \<lparr>opt_headers = [(''Authorization'', ''Bearer '' @ to_string P access_token),
                       (''User-Agent'', ''Buzzex Javascript API Client'')],
        opt_timeout = cfg_timeout C,
        opt_method = (if method = ''trade'' then ''POST'' else ''GET''),
        opt_body = qs_stringify P (params_after (privateMethod P C E method a callback))\<rparr>)]"
  using assms
  by (simp add: events_privateMethod on_token_events got_requests_append got_requests_notify
      fst_rawRequest params_after_privateMethod)

lemma startsWith_E_iff: "startsWith_E e \<longleftrightarrow> (\<exists>c. e = CHR ''E'' # c)"
  by (cases e) (auto simp: startsWith_E_def)

lemma hard_errors_strings:
  "hard_errors (JArr (map JStr es)) = Inr (map (drop 1) (filter startsWith_E es))"
proof -
  have "list_all is_str (map JStr es)" by (induction es) simp_all
  moreover have "map str_of (map JStr es) = es" by (induction es) simp_all
  ultimately show ?thesis by (simp add: hard_errors_def)
qed

lemma check_response_strings:
  assumes "get_prop response ''error'' = Inr (JArr (map JStr es))" and "es \<noteq> []"
  shows "check_response response =
     (if filter startsWith_E es = [] then Inl UnknownRemoteError else Inr response)"
  using assms by (simp add: check_response_def hard_errors_strings)

lemma to_string_cong:
  "num_to_string P' = num_to_string P \<Longrightarrow> to_string P' v = to_string P v"
  by (induction P v rule: to_string.induct) (auto intro!: arg_cong [where f = join_comma])

lemma to_string_crypto:
  "to_string (P\<lparr>utf8_encode := ue, sha256 := h, hmac_sha512 := hm,
      base64_decode := bd, base64_encode := be\<rparr>) v = to_string P v"
  by (rule to_string_cong) simp

lemma rawRequest_crypto:
  "rawRequest (P\<lparr>utf8_encode := ue, sha256 := h, hmac_sha512 := hm,
      base64_decode := bd, base64_encode := be\<rparr>) E url headers data timeout method =
   rawRequest P E url headers data timeout method"
  by (simp add: rawRequest_def Let_def split: got_outcome.split)

lemma sample_token:
  "token_reply sample_env ''https://api.buzzex.io/api/token'' ''POST''
     (token_json (cfg_key sample_config) (cfg_secret sample_config)) =
   TokenBody (JObj [(''access_token'', JStr ''tok'')])"
  by (simp add: sample_env_def)

lemma sample_access_token:
  "get_prop (JObj [(''access_token'', JStr ''tok'')]) ''access_token'' = Inr (JStr ''tok'')"
  by (simp add: obj_get_Cons)

subsection \<open>Signer\<close>

text \<open>
  C2. For every path, parameter object, secret and integer nonce, the signature the
  program computes is the one the specification words: the base64 text of HMAC-SHA512,
  keyed with the base64-decoded secret, of the path followed by the raw digest bytes of
  SHA-256 of the nonce printed as a string followed by the serialised parameters. The
  digest passes through a \<^verbatim>\<open>'binary'\<close> string and comes back as the same bytes; the
  parameters reach the serialiser as they are, in their own order.
\<close>

theorem getMessageSignature_spec_sign:
  "getMessageSignature P path params secret (JNum nonce) = spec_sign P path params secret nonce"
  by (simp add: getMessageSignature_def spec_sign_def binary_encode_append binary_roundtrip)

subsection \<open>Transport\<close>

text \<open>
  C6. Let the parsed response of \<^verbatim>\<open>rawRequest\<close> carry a non-empty \<^verbatim>\<open>error\<close> array of
  strings. If no entry starts with \<^verbatim>\<open>E\<close>, the promise is rejected with the unknown-error
  \<^verbatim>\<open>Error\<close>; if at least one does, nothing is raised and the promise resolves with the
  parsed response. The codes the program extracts are the entries that start with \<^verbatim>\<open>E\<close>,
  each without that first character: \<open>c\<close> is such a code exactly when \<open>E c\<close> is an entry.
\<close>

theorem rawRequest_error_array:
  assumes "json_parse P body = Some response"
    and "get_prop response ''error'' = Inr (JArr (map JStr es))"
    and "es \<noteq> []"
  shows "snd (rawRequest P (E\<lparr>got_reply := \<lambda>url options. GotBody body\<rparr>) url headers data timeout method) =
           (if filter startsWith_E es = [] then Rejected UnknownRemoteError else Resolved response)
         \<and> hard_errors (JArr (map JStr es)) = Inr (map (drop 1) (filter startsWith_E es))
         \<and> (\<forall>c. c \<in> set (map (drop 1) (filter startsWith_E es)) \<longleftrightarrow> CHR ''E'' # c \<in> set es)"
proof -
  have "snd (rawRequest P (E\<lparr>got_reply := \<lambda>url options. GotBody body\<rparr>) url headers data timeout method)
          = settle_of (check_response response)"
    using assms(1) by (simp add: rawRequest_def Let_def)
  then have "snd (rawRequest P (E\<lparr>got_reply := \<lambda>url options. GotBody body\<rparr>) url headers data timeout method) =
           (if filter startsWith_E es = [] then Rejected UnknownRemoteError else Resolved response)"
    using check_response_strings [OF assms(2,3)] by (simp add: settle_of_def)
  moreover have "\<forall>c. c \<in> set (map (drop 1) (filter startsWith_E es)) \<longleftrightarrow> CHR ''E'' # c \<in> set es"
    by (force simp: startsWith_E_iff image_iff)
  ultimately show ?thesis by (simp add: hard_errors_strings)
qed

theorem rawRequest_error_array_witness:
  "snd (rawRequest sample_platform (sample_env\<lparr>got_reply := \<lambda>url options. GotBody ''hard''\<rparr>)
          ''u'' [] [] 5000 ''GET'') = Resolved (JObj [(''error'', JArr [JStr ''EGeneral:Invalid''])])
   \<and> hard_errors (JArr [JStr ''EGeneral:Invalid'']) = Inr [''General:Invalid'']
   \<and> snd (rawRequest sample_platform (sample_env\<lparr>got_reply := \<lambda>url options. GotBody ''soft''\<rparr>)
          ''u'' [] [] 5000 ''GET'') = Rejected UnknownRemoteError
   \<and> hard_errors (JArr [JStr ''Warning:Foo'']) = Inr []"
  using rawRequest_error_array [of sample_platform "''hard''"
      "JObj [(''error'', JArr [JStr ''EGeneral:Invalid''])]" "[''EGeneral:Invalid'']"
      sample_env "''u''" "[]" "[]" 5000 "''GET''"]
    rawRequest_error_array [of sample_platform "''soft''"
      "JObj [(''error'', JArr [JStr ''Warning:Foo''])]" "[''Warning:Foo'']"
      sample_env "''u''" "[]" "[]" 5000 "''GET''"]
  by (simp add: sample_platform_def sample_json_def obj_get_def startsWith_E_def)

subsection \<open>Routing\<close>

text \<open>
  C7. For a method name of the public set, \<^verbatim>\<open>api\<close> returns normally and its trace holds
  no token request; for a method name of the private set, \<^verbatim>\<open>api\<close> returns normally and
  its trace holds exactly one token request.
\<close>

theorem api_token_fetches:
  "method \<in> set (methods_public @ methods_private) \<Longrightarrow>
     \<exists>r. api P C E method a callback = Inr r \<and>
         token_fetches (events r) = (if method \<in> set methods_public then 0 else 1)"
  by (auto simp: api_def Let_def events_publicMethod events_privateMethod token_fetches_append
      token_fetches_notify fst_rawRequest token_fetches_on_token split: token_outcome.split)

theorem api_token_fetches_witness:
  "''ticker'' \<in> set (methods_public @ methods_private) \<and>
   ''trade'' \<in> set (methods_public @ methods_private) \<and>
   (\<exists>r. api sample_platform sample_config sample_env ''ticker'' NoArg None = Inr r \<and>
        token_fetches (events r) = 0) \<and>
   (\<exists>r. api sample_platform sample_config sample_env ''trade'' NoArg None = Inr r \<and>
        token_fetches (events r) = 1)"
  using api_token_fetches [of "''ticker''" sample_platform sample_config sample_env NoArg None]
    api_token_fetches [of "''trade''" sample_platform sample_config sample_env NoArg None]
  by (simp add: methods_public_def methods_private_def)

text \<open>
  C10. A function in the position of \<^verbatim>\<open>params\<close> is taken as the callback and the
  parameters default to the empty object: for \<^verbatim>\<open>api\<close>, \<^verbatim>\<open>publicMethod\<close> and
  \<^verbatim>\<open>privateMethod\<close>, the call with the function \<open>f\<close> in that position gives the same
  result, trace and parameter object as the call with \<^verbatim>\<open>{}\<close> and the callback \<open>f\<close>,
  whatever stood in the callback position.
\<close>

theorem function_in_params_position:
  "api P C E m (FunArg f) callback = api P C E m (ObjArg []) (Some f) \<and>
   publicMethod P C E m (FunArg f) callback = publicMethod P C E m (ObjArg []) (Some f) \<and>
   privateMethod P C E m (FunArg f) callback = privateMethod P C E m (ObjArg []) (Some f)"
  by (simp add: api_def publicMethod_def privateMethod_def params_of_def callback_of_def)

subsection \<open>Private calls\<close>

text \<open>
  C4, as amended. \<^verbatim>\<open>privateMethod\<close> tests \<^verbatim>\<open>!params.nonce\<close>: a truthy nonce of the
  caller is left unchanged; a nonce that is absent or falsy (\<^verbatim>\<open>undefined\<close>, \<^verbatim>\<open>null\<close>,
  \<^verbatim>\<open>false\<close>, \<^verbatim>\<open>0\<close>, the empty string) is replaced by 1000 times the millisecond
  reading of the clock, which is positive and not smaller than 1000 times any earlier
  positive reading \<open>t0\<close>.
\<close>

theorem privateMethod_nonce:
  "(truthy (obj_get (params_of a) ''nonce'') \<longrightarrow>
      obj_get (params_after (privateMethod P C E method a callback)) ''nonce'' =
        obj_get (params_of a) ''nonce'')
   \<and> (\<not> truthy (obj_get (params_of a) ''nonce'') \<longrightarrow>
      obj_get (params_after (privateMethod P C E method a callback)) ''nonce'' =
        JNum (clock_ms E * 1000)
      \<and> (0 < t0 \<and> t0 \<le> clock_ms E \<longrightarrow>
           0 < clock_ms E * 1000 \<and> t0 * 1000 \<le> clock_ms E * 1000))"
  by (simp add: params_after_privateMethod assign_nonce_def obj_get_obj_set)

theorem privateMethod_nonce_witness:
  "truthy (obj_get (params_of (ObjArg [(''nonce'', JNum 42)])) ''nonce'')
   \<and> obj_get (params_after (privateMethod sample_platform sample_config sample_env ''getinfo''
        (ObjArg [(''nonce'', JNum 42)]) None)) ''nonce'' = JNum 42
   \<and> \<not> truthy (obj_get (params_of (ObjArg [])) ''nonce'')
   \<and> (0::int) < 1699999999999 \<and> 1699999999999 \<le> clock_ms sample_env
   \<and> obj_get (params_after (privateMethod sample_platform sample_config sample_env ''getinfo''
        (ObjArg []) None)) ''nonce'' = JNum 1700000000000000"
  using privateMethod_nonce [of "ObjArg [(''nonce'', JNum 42)]" sample_platform sample_config
      sample_env "''getinfo''" None 1]
    privateMethod_nonce [of "ObjArg []" sample_platform sample_config
      sample_env "''getinfo''" None 1699999999999]
  by (simp add: params_of_def obj_get_def sample_env_def)

text \<open>
  C4 as stated fails: a caller who supplies the nonce \<^verbatim>\<open>0\<close> does not keep it.
\<close>

theorem privateMethod_nonce_counterexample:
  "obj_get (params_of (ObjArg [(''nonce'', JNum 0)])) ''nonce'' = JNum 0
   \<and> obj_get (params_after (privateMethod sample_platform sample_config sample_env ''getinfo''
        (ObjArg [(''nonce'', JNum 0)]) None)) ''nonce'' = JNum 1700000000000000"
  by (simp add: params_after_privateMethod assign_nonce_def obj_get_obj_set params_of_def
      obj_get_Nil obj_get_Cons sample_env_def)

text \<open>
  C5, as amended. \<^verbatim>\<open>privateMethod\<close> sets an absent \<^verbatim>\<open>params.param\<close> to the empty
  string; a present one is prefixed with \<^verbatim>\<open>/\<close> unless the method is \<^verbatim>\<open>trade\<close>, where
  it is left as it is. When the token arrives, the one request goes to the base URL
  followed by \<^verbatim>\<open>/api/v1/trading/\<close>, the method name and the normalised parameter; so
  for \<^verbatim>\<open>trade\<close> the parameter follows the method name directly. For \<^verbatim>\<open>trade\<close> the
  serialised parameters are appended after \<^verbatim>\<open>?\<close> as well, and for every method they
  are the body of the request.
\<close>

theorem privateMethod_param:
  assumes "token_reply E ''https://api.buzzex.io/api/token'' ''POST''
             (token_json (cfg_key C) (cfg_secret C)) = TokenBody value"
    and "get_prop value ''access_token'' = Inr access_token"
  shows "obj_get (params_after (privateMethod P C E method a callback)) ''param'' =
           (if obj_get (params_of a) ''param'' = JUndefined then JStr []
            else if method \<noteq> ''trade''
            then JStr (''/'' @ to_string P (obj_get (params_of a) ''param''))
            else obj_get (params_of a) ''param'')
         \<and> map fst (got_requests (events (privateMethod P C E method a callback))) =
           [cfg_url C @ ''/api/v1/trading/'' @ method @
            (if obj_get (params_of a) ''param'' = JUndefined then []
             else if method \<noteq> ''trade''
             then ''/'' @ to_string P (obj_get (params_of a) ''param'')
             else to_string P (obj_get (params_of a) ''param'')) @
            (if method = ''trade''
             then ''?'' @ qs_stringify P (params_after (privateMethod P C E method a callback))
             else [])]
         \<and> map (opt_body \<circ> snd) (got_requests (events (privateMethod P C E method a callback))) =
           [qs_stringify P (params_after (privateMethod P C E method a callback))]"
proof -
  have p: "obj_get (params_after (privateMethod P C E method a callback)) ''param'' =
           (if obj_get (params_of a) ''param'' = JUndefined then JStr []
            else if method \<noteq> ''trade''
            then JStr (''/'' @ to_string P (obj_get (params_of a) ''param''))
            else obj_get (params_of a) ''param'')"
    by (simp add: params_after_privateMethod normalize_param_def obj_get_obj_set)
  show ?thesis
    unfolding got_requests_privateMethod [OF assms] using p by simp
qed

theorem privateMethod_param_witness:
  "token_reply sample_env ''https://api.buzzex.io/api/token'' ''POST''
     (token_json (cfg_key sample_config) (cfg_secret sample_config)) =
   TokenBody (JObj [(''access_token'', JStr ''tok'')])
   \<and> get_prop (JObj [(''access_token'', JStr ''tok'')]) ''access_token'' = Inr (JStr ''tok'')
   \<and> obj_get (params_after (privateMethod sample_platform sample_config sample_env ''order-info''
        (ObjArg [(''param'', JStr ''7''), (''nonce'', JStr ''1'')]) None)) ''param'' = JStr ''/7''
   \<and> map fst (got_requests (events (privateMethod sample_platform sample_config sample_env
        ''order-info'' (ObjArg [(''param'', JStr ''7''), (''nonce'', JStr ''1'')]) None))) =
       [''https://api.buzzex.io/api/v1/trading/order-info/7'']"
  using privateMethod_param [OF sample_token sample_access_token,
      of sample_platform "''order-info''" "ObjArg [(''param'', JStr ''7''), (''nonce'', JStr ''1'')]" None]
    sample_token sample_access_token
  by (simp add: params_of_def obj_get_Cons sample_config_def defaults_def)

text \<open>
  C5 as stated fails: for \<^verbatim>\<open>trade\<close> with the parameter \<^verbatim>\<open>X\<close> the path of the
  request URL is not \<^verbatim>\<open>/api/v1/trading/trade\<close>; the parameter is part of it.
\<close>

theorem privateMethod_trade_url_counterexample:
  "map fst (got_requests (events (privateMethod sample_platform sample_config sample_env ''trade''
      (ObjArg [(''param'', JStr ''X''), (''nonce'', JStr ''1'')]) None))) =
   [''https://api.buzzex.io/api/v1/trading/tradeX?param=X&nonce=1'']"
  unfolding got_requests_privateMethod [OF sample_token sample_access_token]
  by (simp add: params_after_privateMethod normalize_param_def assign_nonce_def assign_otp_def
      params_of_def obj_get_Cons sample_config_def defaults_def sample_platform_def)

text \<open>
  C8. When the token arrives, the one request \<^verbatim>\<open>privateMethod\<close> issues has exactly the
  headers \<^verbatim>\<open>Authorization: Bearer\<close> with the access token and the fixed
  \<^verbatim>\<open>User-Agent\<close>; its body is the serialisation of the parameter object, whose keys are
  the caller's and \<^verbatim>\<open>param\<close>, \<^verbatim>\<open>nonce\<close>, \<^verbatim>\<open>otp\<close>. Nothing in the trace or in the
  parameter object depends on the signature: both stay the same when the hash, the HMAC
  and the encodings that make the signature are replaced by any others.
\<close>

theorem privateMethod_signature_discarded:
  assumes "token_reply E ''https://api.buzzex.io/api/token'' ''POST''
             (token_json (cfg_key C) (cfg_secret C)) = TokenBody value"
    and "get_prop value ''access_token'' = Inr access_token"
  shows "map (opt_headers \<circ> snd) (got_requests (events (privateMethod P C E method a callback))) =
           [[(''Authorization'', ''Bearer '' @ to_string P access_token),
             (''User-Agent'', ''Buzzex Javascript API Client'')]]
         \<and> map (opt_body \<circ> snd) (got_requests (events (privateMethod P C E method a callback))) =
           [qs_stringify P (params_after (privateMethod P C E method a callback))]
         \<and> set (map fst (params_after (privateMethod P C E method a callback)))
             \<subseteq> set (map fst (params_of a)) \<union> {''param'', ''nonce'', ''otp''}
         \<and> events (privateMethod (P\<lparr>utf8_encode := ue, sha256 := h, hmac_sha512 := hm,
               base64_decode := bd, base64_encode := be\<rparr>) C E method a callback) =
           events (privateMethod P C E method a callback)
         \<and> params_after (privateMethod (P\<lparr>utf8_encode := ue, sha256 := h, hmac_sha512 := hm,
               base64_decode := bd, base64_encode := be\<rparr>) C E method a callback) =
           params_after (privateMethod P C E method a callback)"
proof -
  have "events (privateMethod (P\<lparr>utf8_encode := ue, sha256 := h, hmac_sha512 := hm,
               base64_decode := bd, base64_encode := be\<rparr>) C E method a callback) =
      events (privateMethod P C E method a callback)"
    by (simp add: events_privateMethod on_token_events normalize_param_def
        to_string_crypto rawRequest_crypto split: token_outcome.split sum.split)
  moreover have "params_after (privateMethod (P\<lparr>utf8_encode := ue, sha256 := h, hmac_sha512 := hm,
               base64_decode := bd, base64_encode := be\<rparr>) C E method a callback) =
      params_after (privateMethod P C E method a callback)"
    by (simp add: params_after_privateMethod normalize_param_def to_string_crypto)
  moreover have "set (map fst (params_after (privateMethod P C E method a callback)))
      \<subseteq> set (map fst (params_of a)) \<union> {''param'', ''nonce'', ''otp''}"
    unfolding params_after_privateMethod normalize_param_def assign_nonce_def assign_otp_def
    by (simp add: keys_obj_set subset_iff split: option.split)
  ultimately show ?thesis
    unfolding got_requests_privateMethod [OF assms] by simp
qed

theorem privateMethod_signature_discarded_witness:
  "token_reply sample_env ''https://api.buzzex.io/api/token'' ''POST''
     (token_json (cfg_key sample_config) (cfg_secret sample_config)) =
   TokenBody (JObj [(''access_token'', JStr ''tok'')])
   \<and> get_prop (JObj [(''access_token'', JStr ''tok'')]) ''access_token'' = Inr (JStr ''tok'')
   \<and> map (opt_headers \<circ> snd) (got_requests (events (privateMethod sample_platform sample_config
         sample_env ''getinfo'' NoArg None))) =
       [[(''Authorization'', ''Bearer tok''), (''User-Agent'', ''Buzzex Javascript API Client'')]]
   \<and> signature (privateMethod sample_platform sample_config sample_env ''getinfo'' NoArg None) \<noteq> None"
  using privateMethod_signature_discarded [OF sample_token sample_access_token,
      of sample_platform "''getinfo''" NoArg None]
    sample_token sample_access_token
  by (simp add: privateMethod_def Let_def split: prod.split)

subsection \<open>Where the program departs from its description\<close>

text \<open>
  C1. Every call of \<^verbatim>\<open>api\<close> with a known method name is to return a promise that
  settles with the outcome of the request. The program does not do so for the private
  methods: \<^verbatim>\<open>api('getinfo', {})\<close> is the call \<^verbatim>\<open>privateMethod('getinfo', {})\<close>, and
  \<^verbatim>\<open>privateMethod\<close> returns \<^verbatim>\<open>undefined\<close> on every call, since the promise that
  \<^verbatim>\<open>token.then\<close> builds is dropped.
\<close>

theorem privateMethod_returns_undefined:
  "api sample_platform sample_config sample_env ''getinfo'' (ObjArg []) None =
     Inr (privateMethod sample_platform sample_config sample_env ''getinfo'' (ObjArg []) None)
   \<and> returned (privateMethod P C E method a callback) = RetUndefined"
proof -
  have "api sample_platform sample_config sample_env ''getinfo'' (ObjArg []) None =
     Inr (privateMethod sample_platform sample_config sample_env ''getinfo'' (ObjArg []) None)"
    by (simp add: api_def methods_public_def methods_private_def callback_of_def)
  moreover have "returned (privateMethod P C E method a callback) = RetUndefined"
    by (simp add: privateMethod_def Let_def split: prod.split)
  ultimately show ?thesis by simp
qed

text \<open>
  C3. A transport error of the token request is to reach the caller of \<^verbatim>\<open>getToken\<close>.
  In the program the promise of \<^verbatim>\<open>getToken\<close> then never settles, and a private call
  with a callback \<open>f\<close> ends after the token request without ever calling \<open>f\<close>.
\<close>

theorem getToken_transport_error:
  "snd (getToken (E\<lparr>token_reply := \<lambda>url method json. TokenFailed e\<rparr>) key secret) = Pending
   \<and> events (privateMethod P C (E\<lparr>token_reply := \<lambda>url method json. TokenFailed e\<rparr>) m a (Some f)) =
       [TokenRequest ''https://api.buzzex.io/api/token'' ''POST''
          (token_json (cfg_key C) (cfg_secret C))]"
  by (simp add: getToken_def events_privateMethod)

text \<open>
  C9. \<^verbatim>\<open>publicMethod\<close> is to append the path parameter only when it is present. In the
  program a call without parameters requests the base URL followed by
  \<^verbatim>\<open>/api/v1/\<close>, the method name and \<^verbatim>\<open>/undefined\<close>; with the default configuration,
  \<^verbatim>\<open>publicMethod('info', {})\<close> issues a GET for \<^verbatim>\<open>https://api.buzzex.io/api/v1/info/undefined\<close>
  with the \<^verbatim>\<open>User-Agent\<close> header alone.
\<close>

theorem publicMethod_absent_param:
  "map fst (got_requests (events (publicMethod P C E method NoArg callback))) =
     [cfg_url C @ ''/api/v1/'' @ method @ ''/undefined'']
   \<and> events (publicMethod sample_platform sample_config sample_env ''info'' (ObjArg []) None) =
     [GotRequest ''https://api.buzzex.io/api/v1/info/undefined''
        \<lparr>opt_headers = [(''User-Agent'', ''Buzzex Javascript API Client'')],
         opt_timeout = 5000, opt_method = ''GET'', opt_body = []\<rparr>]"
proof -
  have "map fst (got_requests (events (publicMethod P C E method NoArg callback))) =
     [cfg_url C @ ''/api/v1/'' @ method @ ''/undefined'']"
    by (simp add: events_publicMethod fst_rawRequest got_requests_append got_requests_notify
        params_of_def obj_get_Nil)
  moreover have "events (publicMethod sample_platform sample_config sample_env ''info'' (ObjArg []) None) =
     [GotRequest ''https://api.buzzex.io/api/v1/info/undefined''
        \<lparr>opt_headers = [(''User-Agent'', ''Buzzex Javascript API Client'')],
         opt_timeout = 5000, opt_method = ''GET'', opt_body = []\<rparr>]"
    by (simp add: events_publicMethod fst_rawRequest params_of_def callback_of_def notify_def
        obj_get_Nil sample_config_def defaults_def sample_platform_def)
  ultimately show ?thesis by simp
qed

end
